theory Spec2Isabelle
  imports Main "HOL-Library.AList" "HOL-Library.Dlist" "HOL-Library.Multiset" "HOL-Library.Sublist"
begin

section \<open>Payload values\<close>

text \<open>
  An inbound payload is whatever JSON the client sent: the handlers of \<^verbatim>\<open>main.py\<close> read it
  with \<^verbatim>\<open>data['k']\<close> and \<^verbatim>\<open>data.get('k', d)\<close> and never check its type. Floats are left out.
\<close>

datatype val = VNone | VBool bool | VInt int | VStr string
  | VList "val list" | VDict "(string \<times> val) list"

datatype py_error = KeyError | TypeError | AttributeError

text \<open>
  A dictionary key. Python hashes \<^verbatim>\<open>True\<close> and \<^verbatim>\<open>1\<close> to the same key, and refuses lists and
  dictionaries with a TypeError.
\<close>

datatype hkey = KNone | KNum int | KStr string

fun hash_key :: "val \<Rightarrow> py_error + hkey" where
  "hash_key VNone = Inr KNone"
| "hash_key (VBool b) = Inr (KNum (if b then 1 else 0))"
| "hash_key (VInt i) = Inr (KNum i)"
| "hash_key (VStr s) = Inr (KStr s)"
| "hash_key (VList xs) = Inl TypeError"
| "hash_key (VDict d) = Inl TypeError"

text \<open>Truthiness, as \<^verbatim>\<open>if typing:\<close> and \<^verbatim>\<open>if not target_user:\<close> use it.\<close>

fun truthy :: "val \<Rightarrow> bool" where
  "truthy VNone = False"
| "truthy (VBool b) = b"
| "truthy (VInt i) = (i \<noteq> 0)"
| "truthy (VStr s) = (s \<noteq> [])"
| "truthy (VList xs) = (xs \<noteq> [])"
| "truthy (VDict d) = (d \<noteq> [])"

text \<open>\<^verbatim>\<open>data[key]\<close> with a string key: KeyError on a dictionary without it, TypeError elsewhere.\<close>

fun subscript :: "val \<Rightarrow> string \<Rightarrow> py_error + val" where
  "subscript (VDict d) k = (case map_of d k of None \<Rightarrow> Inl KeyError | Some v \<Rightarrow> Inr v)"
| "subscript v k = Inl TypeError"

text \<open>\<^verbatim>\<open>data.get(key, default)\<close>: only a dictionary has the method.\<close>

fun get :: "val \<Rightarrow> string \<Rightarrow> val \<Rightarrow> py_error + val" where
  "get (VDict d) k dflt = Inr (case map_of d k of None \<Rightarrow> dflt | Some v \<Rightarrow> v)"
| "get v k dflt = Inl AttributeError"

text \<open>
  \<^verbatim>\<open>str.strip()\<close>: the ASCII whitespace characters are removed at both ends (a byte string
  has no other Unicode whitespace); any value but a string has no such method.
\<close>

definition is_space :: "char \<Rightarrow> bool" where
  "is_space c \<longleftrightarrow> c \<in> set [CHR 0x09, CHR 0x0A, CHR 0x0B, CHR 0x0C, CHR 0x0D,
                           CHR 0x1C, CHR 0x1D, CHR 0x1E, CHR 0x1F, CHR 0x20]"

definition strip :: "string \<Rightarrow> string" where
  "strip s = rev (dropWhile is_space (rev (dropWhile is_space s)))"

fun py_strip :: "val \<Rightarrow> py_error + string" where
  "py_strip (VStr s) = Inr (strip s)"
| "py_strip v = Inl AttributeError"

text \<open>
  A value used as a list index or compared with an integer (\<^verbatim>\<open>0 <= msg_index < len(...)\<close>):
  a bool is an int in Python, anything else raises TypeError.
\<close>

fun index_of :: "val \<Rightarrow> py_error + int" where
  "index_of (VInt i) = Inr i"
| "index_of (VBool b) = Inr (if b then 1 else 0)"
| "index_of v = Inl TypeError"

section \<open>Engine state\<close>

text \<open>\<^verbatim>\<open>Config.CHAT_ROOMS\<close>.\<close>

definition CHAT_ROOMS :: "string list" where
  "CHAT_ROOMS = [''Open Mic'', ''Code & Coffee'', ''XP Zone'', ''Study Squad'',
                 ''Lo-Fi Corner'', ''Meme Stream'', ''Wellness Wave'']"

text \<open>
  \<^verbatim>\<open>room in app.config['CHAT_ROOMS']\<close>: list membership compares with \<^verbatim>\<open>==\<close>, and only a
  string equals a string. The result is the room name when the value is in the catalog.
\<close>

fun catalog_room :: "val \<Rightarrow> string option" where
  "catalog_room (VStr r) = (if r \<in> set CHAT_ROOMS then Some r else None)"
| "catalog_room v = None"

text \<open>
  A Python dictionary is an association list in insertion order: \<open>AList.update\<close> overwrites
  the entry in place or appends a new one, \<open>AList.delete\<close> removes it, \<open>map_of\<close> reads it.
\<close>

text \<open>An entry of \<^verbatim>\<open>active_users\<close>; the key \<^verbatim>\<open>'room'\<close> is absent until a join.\<close>

record user_entry =
  u_username :: string
  u_connected_at :: string
  u_room :: "string option"

type_synonym reactions = "(hkey \<times> string list) list"

text \<open>An entry of a room's list in \<^verbatim>\<open>chat_history\<close>.\<close>

record message =
  m_msg :: string
  m_username :: string
  m_timestamp :: string
  m_reactions :: reactions

text \<open>
  The three module-level dictionaries. A value of \<^verbatim>\<open>typing_users\<close> is a Python set, here a
  duplicate-free list whose order stands for the iteration order of the set, which Python
  does not specify.
\<close>

record engine =
  active_users :: "(string \<times> user_entry) list"
  typing_users :: "(hkey \<times> string dlist) list"
  chat_history :: "(string \<times> message list) list"

definition initial :: engine where
  "initial = \<lparr>active_users = [], typing_users = [], chat_history = []\<rparr>"

section \<open>Effects of a handler\<close>

text \<open>
  The recipient of an \<^verbatim>\<open>emit\<close>: every connection (\<^verbatim>\<open>broadcast=True\<close>) or a room
  (\<^verbatim>\<open>room=...\<close>); the room named by a connection id holds that connection only.
\<close>

datatype target = Broadcast | Room val

datatype payload =
    ActiveUsers "string list"
  | Status string string "string option" "val option"
  | ChatHistory string "message list"
  | MessageEv string string string string reactions
  | PrivateMessage string string string string
  | ReactionUpdate val reactions

text \<open>A call into the transport library, in the order the handler makes them.\<close>

datatype effect = Emit payload target | JoinRoom string string | LeaveRoom string val

text \<open>A log line: its level and the fixed part of its text.\<close>

datatype log = Info string | Warning string | Error string py_error

text \<open>
  What one run of a handler leaves behind: the dictionaries as it left them, its calls
  into the transport, its log lines, and either its return value or the exception that
  left it.
\<close>

record outcome =
  state :: engine
  effects :: "effect list"
  logs :: "log list"
  result :: "py_error + val"

definition finished :: "engine \<Rightarrow> effect list \<Rightarrow> log list \<Rightarrow> outcome" where
  "finished s es ls = \<lparr>state = s, effects = es, logs = ls, result = Inr VNone\<rparr>"

text \<open>\<^verbatim>\<open>except Exception as e: logger.error(...)\<close>: the handler returns normally.\<close>

definition caught :: "string \<Rightarrow> py_error \<Rightarrow> engine \<Rightarrow> effect list \<Rightarrow> outcome" where
  "caught what e s es = \<lparr>state = s, effects = es, logs = [Error what e], result = Inr VNone\<rparr>"

text \<open>An exception outside any \<^verbatim>\<open>try\<close> leaves the handler.\<close>

definition propagated :: "py_error \<Rightarrow> engine \<Rightarrow> effect list \<Rightarrow> outcome" where
  "propagated e s es = \<lparr>state = s, effects = es, logs = [], result = Inl e\<rparr>"

definition roster :: "engine \<Rightarrow> string list" where
  "roster s = map (\<lambda>(sid, u). u_username u) (active_users s)"

section \<open>Event handlers\<close>

text \<open>
  Every handler takes what Flask supplies from the request context as arguments: the
  connection id \<^verbatim>\<open>request.sid\<close>, the name \<^verbatim>\<open>current_user.username\<close> and the string that
  \<^verbatim>\<open>datetime.now().isoformat()\<close> returns.
\<close>

text \<open>\<^verbatim>\<open>handle_connect\<close>; the user is \<open>None\<close> when \<^verbatim>\<open>current_user.is_authenticated\<close> is false.\<close>

definition handle_connect :: "string \<Rightarrow> string option \<Rightarrow> string \<Rightarrow> engine \<Rightarrow> outcome" where
  "handle_connect sid cur ts s =
     (case cur of
        None \<Rightarrow> \<lparr>state = s, effects = [],
                 logs = [Warning ''Unauthorized connection attempt rejected''],
                 result = Inr (VBool False)\<rparr>
      | Some username \<Rightarrow>
          let s' = s\<lparr>active_users :=
                      AList.update sid \<lparr>u_username = username, u_connected_at = ts, u_room = None\<rparr>
                        (active_users s)\<rparr>
          in finished s' [Emit (ActiveUsers (roster s')) Broadcast] [Info ''User connected''])"

text \<open>\<^verbatim>\<open>handle_disconnect\<close>.\<close>

definition handle_disconnect :: "string \<Rightarrow> engine \<Rightarrow> outcome" where
  "handle_disconnect sid s =
     (case map_of (active_users s) sid of
        None \<Rightarrow> finished s [] []
      | Some u \<Rightarrow>
          let s' = s\<lparr>active_users := AList.delete sid (active_users s)\<rparr>
          in finished s' [Emit (ActiveUsers (roster s')) Broadcast] [Info ''User disconnected''])"

text \<open>
  \<^verbatim>\<open>on_join\<close>. \<^verbatim>\<open>active_users[request.sid]\<close> raises KeyError for an unknown connection, after
  \<^verbatim>\<open>join_room\<close> has run.
\<close>

definition on_join :: "string \<Rightarrow> string \<Rightarrow> string \<Rightarrow> val \<Rightarrow> engine \<Rightarrow> outcome" where
  "on_join sid username ts data s =
     (case subscript data ''room'' of
        Inl e \<Rightarrow> caught ''Join room error'' e s []
      | Inr room \<Rightarrow>
          (case catalog_room room of
             None \<Rightarrow> finished s [] [Warning ''Invalid room join attempt'']
           | Some r \<Rightarrow>
               (case map_of (active_users s) sid of
                  None \<Rightarrow> caught ''Join room error'' KeyError s [JoinRoom sid r]
                | Some u \<Rightarrow>
                    let s' = s\<lparr>active_users :=
                                AList.update sid (u\<lparr>u_room := Some r\<rparr>) (active_users s)\<rparr>
                    in finished s'
                         ([JoinRoom sid r,
                           Emit (Status (username @ '' has joined the room.'') ''join'' (Some ts) None)
                             (Room room)] @
                          (case map_of (chat_history s) r of
                             None \<Rightarrow> []
                           | Some h \<Rightarrow> [Emit (ChatHistory r h) (Room (VStr sid))]))
                         [Info ''User joined room''])))"

text \<open>
  \<^verbatim>\<open>on_leave\<close>. The room is not validated; the transport library looks it up in a dictionary,
  so \<^verbatim>\<open>leave_room\<close> raises TypeError for a list or a dictionary.
\<close>

definition on_leave :: "string \<Rightarrow> string \<Rightarrow> string \<Rightarrow> val \<Rightarrow> engine \<Rightarrow> outcome" where
  "on_leave sid username ts data s =
     (case subscript data ''room'' of
        Inl e \<Rightarrow> caught ''Leave room error'' e s []
      | Inr room \<Rightarrow>
          (case hash_key room of
             Inl e \<Rightarrow> caught ''Leave room error'' e s []
           | Inr k \<Rightarrow>
               let s' = s\<lparr>active_users :=
                           (case map_of (active_users s) sid of
                              None \<Rightarrow> active_users s
                            | Some u \<Rightarrow> AList.update sid (u\<lparr>u_room := None\<rparr>) (active_users s))\<rparr>
               in finished s'
                    [LeaveRoom sid room,
                     Emit (Status (username @ '' has left the room.'') ''leave'' (Some ts) None)
                       (Room room)]
                    [Info ''User left room'']))"

text \<open>
  \<^verbatim>\<open>handle_message\<close>. The private branch sends to the first connection whose user name equals
  the target and stops; the room branch appends to the room's history.
\<close>

definition handle_message :: "string \<Rightarrow> string \<Rightarrow> string \<Rightarrow> val \<Rightarrow> engine \<Rightarrow> outcome" where
  "handle_message sid username ts data s =
     (case get data ''room'' (VStr ''General'') of
        Inl e \<Rightarrow> caught ''Message handling error'' e s []
      | Inr room \<Rightarrow>
     (case get data ''type'' (VStr ''message'') of
        Inl e \<Rightarrow> caught ''Message handling error'' e s []
      | Inr msg_type \<Rightarrow>
     (case get data ''msg'' (VStr []) of
        Inl e \<Rightarrow> caught ''Message handling error'' e s []
      | Inr raw \<Rightarrow>
     (case py_strip raw of
        Inl e \<Rightarrow> caught ''Message handling error'' e s []
      | Inr message \<Rightarrow>
          if message = [] then finished s [] []
          else if msg_type = VStr ''private'' then
            (case get data ''target'' VNone of
               Inl e \<Rightarrow> caught ''Message handling error'' e s []
             | Inr target_user \<Rightarrow>
                 if \<not> truthy target_user then finished s [] []
                 else
                   (case find (\<lambda>(sid', u). VStr (u_username u) = target_user) (active_users s) of
                      Some (sid', u) \<Rightarrow>
                        finished s
                          [Emit (PrivateMessage message username (u_username u) ts) (Room (VStr sid'))]
                          [Info ''Private message sent'']
                    | None \<Rightarrow>
                        finished s [] [Warning ''Private message failed - user not found'']))
          else
            (case catalog_room room of
               None \<Rightarrow> finished s [] [Warning ''Message to invalid room'']
             | Some r \<Rightarrow>
                 let ch1 = (if map_of (chat_history s) r = None
                            then AList.update r [] (chat_history s) else chat_history s);
                     h = (case map_of ch1 r of None \<Rightarrow> [] | Some h \<Rightarrow> h);
                     new = \<lparr>m_msg = message, m_username = username, m_timestamp = ts,
                            m_reactions = []\<rparr>;
                     s' = s\<lparr>chat_history := AList.update r (h @ [new]) ch1\<rparr>
                 in finished s' [Emit (MessageEv message username r ts []) (Room room)]
                      [Info ''Message sent''])))))"

text \<open>
  The toggle of \<^verbatim>\<open>handle_reaction\<close> on the reactions dictionary of one message: an absent
  emoji gets an empty list first; a user in the list is removed (\<^verbatim>\<open>list.remove\<close> takes the
  first occurrence) and the emoji deleted once its list is empty; any other user is appended.
\<close>

definition toggle :: "hkey \<Rightarrow> string \<Rightarrow> reactions \<Rightarrow> reactions" where
  "toggle emoji user rs =
     (let rs1 = (if map_of rs emoji = None then AList.update emoji [] rs else rs);
          us = (case map_of rs1 emoji of None \<Rightarrow> [] | Some us \<Rightarrow> us)
      in if user \<in> set us then
           let rs2 = AList.update emoji (remove1 user us) rs1
           in if remove1 user us = [] then AList.delete emoji rs2 else rs2
         else AList.update emoji (us @ [user]) rs1)"

text \<open>
  The guard and the lookup of \<^verbatim>\<open>handle_reaction\<close>:
  \<^verbatim>\<open>room in chat_history and 0 <= msg_index < len(chat_history[room])\<close>, then
  \<^verbatim>\<open>chat_history[room][msg_index]\<close>. The result is the room name, its history and the position
  when the guard holds, \<open>None\<close> when it does not, and the exception when evaluating it raises.
  The keys of \<^verbatim>\<open>chat_history\<close> are strings, and \<^verbatim>\<open>and\<close> does not evaluate the comparison for
  a room without history.
\<close>

definition find_message :: "engine \<Rightarrow> val \<Rightarrow> val \<Rightarrow> py_error + (string \<times> message list \<times> nat) option" where
  "find_message s room msg_index =
     (case hash_key room of
        Inl e \<Rightarrow> Inl e
      | Inr k \<Rightarrow>
          (case k of
             KStr r \<Rightarrow>
               (case map_of (chat_history s) r of
                  None \<Rightarrow> Inr None
                | Some h \<Rightarrow>
                    (case index_of msg_index of
                       Inl e \<Rightarrow> Inl e
                     | Inr i \<Rightarrow>
                         if 0 \<le> i \<and> i < int (length h) then Inr (Some (r, h, nat i))
                         else Inr None))
           | KNone \<Rightarrow> Inr None
           | KNum n \<Rightarrow> Inr None))"

text \<open>\<^verbatim>\<open>handle_reaction\<close>.\<close>

definition handle_reaction :: "string \<Rightarrow> val \<Rightarrow> engine \<Rightarrow> outcome" where
  "handle_reaction user data s =
     (case subscript data ''room'' of
        Inl e \<Rightarrow> caught ''Reaction handling error'' e s []
      | Inr room \<Rightarrow>
     (case subscript data ''index'' of
        Inl e \<Rightarrow> caught ''Reaction handling error'' e s []
      | Inr msg_index \<Rightarrow>
     (case subscript data ''emoji'' of
        Inl e \<Rightarrow> caught ''Reaction handling error'' e s []
      | Inr emoji \<Rightarrow>
     (case find_message s room msg_index of
        Inl e \<Rightarrow> caught ''Reaction handling error'' e s []
      | Inr None \<Rightarrow> finished s [] []
      | Inr (Some (r, h, i)) \<Rightarrow>
          (case hash_key emoji of
             Inl e \<Rightarrow> caught ''Reaction handling error'' e s []
           | Inr ek \<Rightarrow>
               let message = h ! i;
                   rs = toggle ek user (m_reactions message);
                   s' = s\<lparr>chat_history :=
                           AList.update r (h[i := message\<lparr>m_reactions := rs\<rparr>]) (chat_history s)\<rparr>
               in finished s' [Emit (ReactionUpdate msg_index rs) (Room room)] [])))))"

text \<open>
  The status text of \<^verbatim>\<open>handle_typing\<close>, from \<^verbatim>\<open>list(users_typing)\<close>: the list of a set has
  no duplicates, so its length is the size of the set.
\<close>

fun typing_status :: "string list \<Rightarrow> string" where
  "typing_status [] = []"
| "typing_status [u] = u @ '' is typing...''"
| "typing_status [u1, u2] = u1 @ '' and '' @ u2 @ '' are typing...''"
| "typing_status us = ''Several people are typing...''"

text \<open>\<^verbatim>\<open>typing_users[room] - {username}\<close> after the update, as a list.\<close>

definition users_typing :: "string \<Rightarrow> string dlist \<Rightarrow> string list" where
  "users_typing username cur = list_of_dlist (Dlist.remove username cur)"

text \<open>\<^verbatim>\<open>handle_typing\<close>: no \<^verbatim>\<open>try\<close> surrounds its body.\<close>

definition handle_typing :: "string \<Rightarrow> val \<Rightarrow> engine \<Rightarrow> outcome" where
  "handle_typing username data s =
     (case subscript data ''room'' of
        Inl e \<Rightarrow> propagated e s []
      | Inr room \<Rightarrow>
     (case subscript data ''typing'' of
        Inl e \<Rightarrow> propagated e s []
      | Inr typing \<Rightarrow>
     (case hash_key room of
        Inl e \<Rightarrow> propagated e s []
      | Inr k \<Rightarrow>
          let tu = (if map_of (typing_users s) k = None
                    then AList.update k Dlist.empty (typing_users s) else typing_users s);
              cur = (case map_of tu k of None \<Rightarrow> Dlist.empty | Some d \<Rightarrow> d);
              cur' = (if truthy typing then Dlist.insert username cur
                      else Dlist.remove username cur);
              s' = s\<lparr>typing_users := AList.update k cur' tu\<rparr>
          in finished s'
               [Emit (Status (typing_status (users_typing username cur')) ''typing'' None (Some room))
                  (Room room)]
               [])))"

section \<open>The router\<close>

text \<open>An inbound event with the request context it arrives in.\<close>

datatype inbound =
    Connect string "string option" string
  | Disconnect string
  | Join string string string val
  | Leave string string string val
  | Message string string string val
  | React string val
  | Typing string val

fun handle :: "inbound \<Rightarrow> engine \<Rightarrow> outcome" where
  "handle (Connect sid cur ts) s = handle_connect sid cur ts s"
| "handle (Disconnect sid) s = handle_disconnect sid s"
| "handle (Join sid username ts data) s = on_join sid username ts data s"
| "handle (Leave sid username ts data) s = on_leave sid username ts data s"
| "handle (Message sid username ts data) s = handle_message sid username ts data s"
| "handle (React user data) s = handle_reaction user data s"
| "handle (Typing username data) s = handle_typing username data s"

text \<open>The state after a sequence of events; an exception ends one handler, not the process.\<close>

fun run :: "inbound list \<Rightarrow> engine \<Rightarrow> engine" where
  "run [] s = s"
| "run (ev # evs) s = run evs (state (handle ev s))"

section \<open>Observations on the state\<close>

text \<open>The history of a room, empty for a room that has no entry in \<^verbatim>\<open>chat_history\<close>.\<close>

definition history :: "engine \<Rightarrow> string \<Rightarrow> message list" where
  "history s r = (case map_of (chat_history s) r of None \<Rightarrow> [] | Some h \<Rightarrow> h)"

text \<open>What a message carries apart from its reactions.\<close>

definition content :: "message \<Rightarrow> string \<times> string \<times> string" where
  "content m = (m_msg m, m_username m, m_timestamp m)"

text \<open>The users recorded for an emoji in one reactions dictionary, none for an absent emoji.\<close>

definition reactor_set :: "reactions \<Rightarrow> hkey \<Rightarrow> string set" where
  "reactor_set rs emoji = (case map_of rs emoji of None \<Rightarrow> {} | Some us \<Rightarrow> set us)"

text \<open>The users recorded for an emoji on the message at a position of a room.\<close>

definition reactors :: "engine \<Rightarrow> string \<Rightarrow> nat \<Rightarrow> hkey \<Rightarrow> string set" where
  "reactors s r i emoji =
     (case map_of (chat_history s) r of
        None \<Rightarrow> {}
      | Some h \<Rightarrow> if i < length h then reactor_set (m_reactions (h ! i)) emoji else {})"

text \<open>No message of any room has an emoji with an empty list of users.\<close>

definition no_empty_reactions :: "engine \<Rightarrow> bool" where
  "no_empty_reactions s \<longleftrightarrow>
     (\<forall>(r, h) \<in> set (chat_history s). \<forall>m \<in> set h. \<forall>(emoji, us) \<in> set (m_reactions m). us \<noteq> [])"

text \<open>No list of users of any emoji names a user twice.\<close>

definition distinct_reactors :: "engine \<Rightarrow> bool" where
  "distinct_reactors s \<longleftrightarrow>
     (\<forall>(r, h) \<in> set (chat_history s). \<forall>m \<in> set h. \<forall>(emoji, us) \<in> set (m_reactions m). distinct us)"

text \<open>The users typing in a room, none for a room without an entry in \<^verbatim>\<open>typing_users\<close>.\<close>

definition typing_set :: "engine \<Rightarrow> hkey \<Rightarrow> string set" where
  "typing_set s k = (case map_of (typing_users s) k of None \<Rightarrow> {} | Some d \<Rightarrow> set (list_of_dlist d))"

text \<open>The same reaction event delivered \<open>n\<close> times in a row.\<close>

definition toggles :: "nat \<Rightarrow> string \<Rightarrow> val \<Rightarrow> engine \<Rightarrow> engine" where
  "toggles n user data s = ((\<lambda>s. state (handle (React user data) s)) ^^ n) s"

section \<open>Association lists\<close>

lemma set_update_subset: "set (AList.update k v al) \<subseteq> insert (k, v) (set al)"
  by (induction al) auto

lemma set_delete_eq: "set (AList.delete k al) = {p \<in> set al. fst p \<noteq> k}"
  by (induction al) auto

section \<open>Failure policy of the handlers\<close>

text \<open>
  C4. The claim is that no handler lets an exception out, whatever the payload. The body of
  \<^verbatim>\<open>handle_typing\<close> has no \<^verbatim>\<open>try\<close>: a typing event whose payload has no \<^verbatim>\<open>room\<close> field
  leaves the handler with the KeyError of \<^verbatim>\<open>data['room']\<close>.
\<close>

theorem typing_missing_room_propagates:
  "result (handle (Typing ''alice'' (VDict [(''typing'', VBool True)])) initial) = Inl KeyError"
  by (simp add: handle_typing_def propagated_def)

section \<open>Dropped events\<close>

text \<open>
  C5. A join whose room is not in the catalog changes nothing and sends nothing: the
  dictionaries are as before, no call into the transport is made (no \<^verbatim>\<open>join_room\<close>, no
  \<^verbatim>\<open>emit\<close>), and the handler returns after one warning in the log.
\<close>

theorem join_invalid_room_no_effect:
  assumes "subscript data ''room'' = Inr room" and "room \<notin> VStr ` set CHAT_ROOMS"
  shows "handle (Join sid username ts data) s
         = \<lparr>state = s, effects = [], logs = [Warning ''Invalid room join attempt''],
            result = Inr VNone\<rparr>"
proof -
  have "catalog_room room = None"
    using assms(2) by (cases room) auto
  then show ?thesis
    using assms(1) by (simp add: on_join_def finished_def)
qed

theorem join_invalid_room_no_effect_witness:
  "subscript (VDict [(''room'', VStr ''General'')]) ''room'' = Inr (VStr ''General'')
   \<and> VStr ''General'' \<notin> VStr ` set CHAT_ROOMS
   \<and> handle (Join ''s1'' ''alice'' ''t1'' (VDict [(''room'', VStr ''General'')])) initial
       = \<lparr>state = initial, effects = [], logs = [Warning ''Invalid room join attempt''],
          result = Inr VNone\<rparr>"
proof -
  have a: "subscript (VDict [(''room'', VStr ''General'')]) ''room'' = Inr (VStr ''General'')"
    by simp
  have b: "VStr ''General'' \<notin> VStr ` set CHAT_ROOMS"
    by (simp add: CHAT_ROOMS_def)
  show ?thesis
    using a b join_invalid_room_no_effect [OF a b] by simp
qed

text \<open>
  C7. A private message whose target is the user name of no registered connection sends
  nothing, raises nothing and leaves the dictionaries as they were. This holds for every
  message text, also an empty or ill-typed one.
\<close>

theorem private_message_unknown_target_dropped:
  assumes "get data ''type'' (VStr ''message'') = Inr (VStr ''private'')"
    and "get data ''target'' VNone = Inr target_user"
    and "\<forall>(sid', u) \<in> set (active_users s). VStr (u_username u) \<noteq> target_user"
  shows "state (handle (Message sid username ts data) s) = s
       \<and> effects (handle (Message sid username ts data) s) = []
       \<and> result (handle (Message sid username ts data) s) = Inr VNone"
proof -
  have "find (\<lambda>(sid', u). VStr (u_username u) = target_user) (active_users s) = None"
    using assms(3) by (auto simp: find_None_iff)
  then show ?thesis
    using assms(1,2)
    by (cases data) (simp_all add: handle_message_def finished_def caught_def split: sum.splits)
qed

theorem private_message_unknown_target_dropped_witness:
  "get (VDict [(''type'', VStr ''private''), (''msg'', VStr ''hi''), (''target'', VStr ''bob'')])
       ''type'' (VStr ''message'') = Inr (VStr ''private'')
   \<and> get (VDict [(''type'', VStr ''private''), (''msg'', VStr ''hi''), (''target'', VStr ''bob'')])
       ''target'' VNone = Inr (VStr ''bob'')
   \<and> roster (state (handle (Connect ''s1'' (Some ''alice'') ''t0'') initial)) = [''alice'']
   \<and> state (handle (Message ''s1'' ''alice'' ''t1''
         (VDict [(''type'', VStr ''private''), (''msg'', VStr ''hi''), (''target'', VStr ''bob'')]))
         (state (handle (Connect ''s1'' (Some ''alice'') ''t0'') initial)))
       = state (handle (Connect ''s1'' (Some ''alice'') ''t0'') initial)
   \<and> effects (handle (Message ''s1'' ''alice'' ''t1''
         (VDict [(''type'', VStr ''private''), (''msg'', VStr ''hi''), (''target'', VStr ''bob'')]))
         (state (handle (Connect ''s1'' (Some ''alice'') ''t0'') initial))) = []"
proof -
  let ?d = "VDict [(''type'', VStr ''private''), (''msg'', VStr ''hi''), (''target'', VStr ''bob'')]"
  let ?s = "state (handle (Connect ''s1'' (Some ''alice'') ''t0'') initial)"
  have a: "get ?d ''type'' (VStr ''message'') = Inr (VStr ''private'')"
    by simp
  have b: "get ?d ''target'' VNone = Inr (VStr ''bob'')"
    by simp
  have c: "\<forall>(sid', u) \<in> set (active_users ?s). VStr (u_username u) \<noteq> VStr ''bob''"
    by (simp add: handle_connect_def finished_def initial_def Let_def)
  have r: "roster ?s = [''alice'']"
    by (simp add: roster_def handle_connect_def finished_def initial_def Let_def)
  show ?thesis
    using a b r private_message_unknown_target_dropped [OF a b c, of "''s1''" "''alice''" "''t1''"]
    by simp
qed

text \<open>
  C10. A message that is not private and whose payload has no \<^verbatim>\<open>room\<close> field goes to the
  default room \<^verbatim>\<open>General\<close>, which is not in \<^verbatim>\<open>CHAT_ROOMS\<close>: it is dropped, with no append to
  any history and nothing sent, whatever its text and its sender.
\<close>

theorem default_room_message_dropped:
  assumes "data = VDict d" and "map_of d ''room'' = None"
    and "get data ''type'' (VStr ''message'') \<noteq> Inr (VStr ''private'')"
  shows "''General'' \<notin> set CHAT_ROOMS
       \<and> state (handle (Message sid username ts data) s) = s
       \<and> effects (handle (Message sid username ts data) s) = []
       \<and> result (handle (Message sid username ts data) s) = Inr VNone"
  using assms
  by (simp add: handle_message_def finished_def caught_def CHAT_ROOMS_def split: sum.splits)

theorem default_room_message_dropped_witness:
  "map_of [(''msg'', VStr ''hi'')] ''room'' = None
   \<and> get (VDict [(''msg'', VStr ''hi'')]) ''type'' (VStr ''message'') \<noteq> Inr (VStr ''private'')
   \<and> ''General'' \<notin> set CHAT_ROOMS
   \<and> state (handle (Message ''s1'' ''alice'' ''t1'' (VDict [(''msg'', VStr ''hi'')])) initial) = initial
   \<and> effects (handle (Message ''s1'' ''alice'' ''t1'' (VDict [(''msg'', VStr ''hi'')])) initial) = []"
proof -
  have a: "map_of [(''msg'', VStr ''hi'')] ''room'' = None"
    by simp
  have b: "get (VDict [(''msg'', VStr ''hi'')]) ''type'' (VStr ''message'') \<noteq> Inr (VStr ''private'')"
    by simp
  show ?thesis
    using a b default_room_message_dropped [OF refl a b, of "''s1''" "''alice''" "''t1''" initial]
    by simp
qed

section \<open>Presence\<close>

text \<open>
  C8. Disconnect is idempotent for a connection id. After the first disconnect the id is
  no key of \<^verbatim>\<open>active_users\<close>; the handler does not fail; a second disconnect for the same id
  changes nothing, sends nothing and does not fail; and the roster loses the name of that
  connection exactly once (nothing when the id was unknown). The keys of a dictionary are
  distinct.
\<close>

theorem disconnect_idempotent:
  assumes "distinct (map fst (active_users s))"
  shows "sid \<notin> fst ` set (active_users (state (handle (Disconnect sid) s)))
       \<and> result (handle (Disconnect sid) s) = Inr VNone
       \<and> handle (Disconnect sid) (state (handle (Disconnect sid) s))
           = \<lparr>state = state (handle (Disconnect sid) s), effects = [], logs = [],
              result = Inr VNone\<rparr>
       \<and> mset (roster s) = mset (roster (state (handle (Disconnect sid) s)))
           + (case map_of (active_users s) sid of None \<Rightarrow> {#} | Some u \<Rightarrow> {#u_username u#})"
proof -
  have del: "map_of (AList.delete sid al) sid = None" for al :: "(string \<times> user_entry) list"
    by (simp add: delete_conv')
  have ms: "distinct (map fst al) \<Longrightarrow> map_of al sid = Some u \<Longrightarrow>
     mset (map (\<lambda>(sid, u). u_username u) al)
       = mset (map (\<lambda>(sid, u). u_username u) (AList.delete sid al)) + {#u_username u#}"
    for al :: "(string \<times> user_entry) list" and u
  proof (induction al)
    case Nil
    then show ?case by simp
  next
    case (Cons p al)
    obtain k v where p: "p = (k, v)" by (cases p)
    show ?case
    proof (cases "k = sid")
      case True
      with Cons.prems p have "v = u" "sid \<notin> fst ` set al" by auto
      then show ?thesis using p True by simp
    next
      case False
      with Cons p show ?thesis by simp
    qed
  qed
  show ?thesis
  proof (cases "map_of (active_users s) sid")
    case None
    then have "sid \<notin> fst ` set (active_users s)"
      by (simp add: map_of_eq_None_iff)
    with None show ?thesis
      by (simp add: handle_disconnect_def finished_def)
  next
    case (Some u)
    then show ?thesis
      using ms [OF assms Some] del [of "active_users s"]
      by (simp add: handle_disconnect_def finished_def roster_def Let_def delete_notin_dom)
  qed
qed

theorem disconnect_idempotent_witness:
  "distinct (map fst (active_users
      (run [Connect ''s1'' (Some ''alice'') ''t0'', Connect ''s2'' (Some ''bob'') ''t1''] initial)))
   \<and> roster (run [Connect ''s1'' (Some ''alice'') ''t0'', Connect ''s2'' (Some ''bob'') ''t1''] initial)
       = [''alice'', ''bob'']
   \<and> roster (run [Connect ''s1'' (Some ''alice'') ''t0'', Connect ''s2'' (Some ''bob'') ''t1'',
                  Disconnect ''s1''] initial) = [''bob'']
   \<and> roster (run [Connect ''s1'' (Some ''alice'') ''t0'', Connect ''s2'' (Some ''bob'') ''t1'',
                  Disconnect ''s1'', Disconnect ''s1''] initial) = [''bob'']
   \<and> effects (handle (Disconnect ''s1'')
        (run [Connect ''s1'' (Some ''alice'') ''t0'', Connect ''s2'' (Some ''bob'') ''t1'',
              Disconnect ''s1''] initial)) = []"
proof -
  let ?s = "run [Connect ''s1'' (Some ''alice'') ''t0'', Connect ''s2'' (Some ''bob'') ''t1''] initial"
  have s: "?s = \<lparr>active_users =
                   [(''s1'', \<lparr>u_username = ''alice'', u_connected_at = ''t0'', u_room = None\<rparr>),
                    (''s2'', \<lparr>u_username = ''bob'', u_connected_at = ''t1'', u_room = None\<rparr>)],
                 typing_users = [], chat_history = []\<rparr>"
    by (simp add: handle_connect_def finished_def initial_def Let_def)
  have d: "distinct (map fst (active_users ?s))"
    unfolding s by simp
  have r1: "state (handle (Disconnect ''s1'') ?s)
             = \<lparr>active_users =
                   [(''s2'', \<lparr>u_username = ''bob'', u_connected_at = ''t1'', u_room = None\<rparr>)],
                typing_users = [], chat_history = []\<rparr>"
    unfolding s by (simp add: handle_disconnect_def finished_def Let_def)
  have run3: "run [Connect ''s1'' (Some ''alice'') ''t0'', Connect ''s2'' (Some ''bob'') ''t1'',
                   Disconnect ''s1''] initial = state (handle (Disconnect ''s1'') ?s)"
    by simp
  have run4: "run [Connect ''s1'' (Some ''alice'') ''t0'', Connect ''s2'' (Some ''bob'') ''t1'',
                   Disconnect ''s1'', Disconnect ''s1''] initial
              = state (handle (Disconnect ''s1'') (state (handle (Disconnect ''s1'') ?s)))"
    by simp
  from disconnect_idempotent [OF d, of "''s1''"]
  have again: "handle (Disconnect ''s1'') (state (handle (Disconnect ''s1'') ?s))
           = \<lparr>state = state (handle (Disconnect ''s1'') ?s), effects = [], logs = [],
              result = Inr VNone\<rparr>"
    by blast
  have a: "roster ?s = [''alice'', ''bob'']"
    unfolding s by (simp add: roster_def)
  have b: "roster (state (handle (Disconnect ''s1'') ?s)) = [''bob'']"
    unfolding r1 by (simp add: roster_def)
  show ?thesis
    unfolding run3 run4 again using d a b by simp
qed

section \<open>Joining a room\<close>

text \<open>
  C9, as claimed: every join of a catalog room sends a \<^verbatim>\<open>chat_history\<close> event to the joining
  connection, an empty one for a room without messages. The handler sends the event under
  the guard \<^verbatim>\<open>if room in chat_history\<close>: alice, connected, joins \<^verbatim>\<open>Open Mic\<close> before any
  message, and the only event sent is the status to the room.
\<close>

theorem join_history_counterexample:
  "catalog_room (VStr ''Open Mic'') = Some ''Open Mic''
   \<and> history (state (handle (Connect ''s1'' (Some ''alice'') ''t0'') initial)) ''Open Mic'' = []
   \<and> effects (handle (Join ''s1'' ''alice'' ''t1'' (VDict [(''room'', VStr ''Open Mic'')]))
               (state (handle (Connect ''s1'' (Some ''alice'') ''t0'') initial)))
     = [JoinRoom ''s1'' ''Open Mic'',
        Emit (Status ''alice has joined the room.'' ''join'' (Some ''t1'') None)
          (Room (VStr ''Open Mic''))]"
  by (simp add: on_join_def handle_connect_def finished_def initial_def CHAT_ROOMS_def Let_def
      history_def)

text \<open>
  C9, amended: a join of a catalog room by a registered connection enters the room, sends
  the join status to the room and, when the room has an entry in \<^verbatim>\<open>chat_history\<close> (it has
  received a message), sends that history to the joining connection only; for a room
  without an entry no \<^verbatim>\<open>chat_history\<close> event is sent, and no error is raised.
\<close>

theorem join_replays_existing_history:
  assumes "subscript data ''room'' = Inr room" and "catalog_room room = Some r"
    and "map_of (active_users s) sid = Some u"
  shows "effects (handle (Join sid username ts data) s)
         = [JoinRoom sid r,
            Emit (Status (username @ '' has joined the room.'') ''join'' (Some ts) None) (Room room)]
           @ (case map_of (chat_history s) r of
                None \<Rightarrow> []
              | Some h \<Rightarrow> [Emit (ChatHistory r h) (Room (VStr sid))])
       \<and> result (handle (Join sid username ts data) s) = Inr VNone"
  using assms by (simp add: on_join_def finished_def Let_def)

theorem join_replays_existing_history_witness:
  "effects (handle (Join ''s2'' ''bob'' ''t3'' (VDict [(''room'', VStr ''Open Mic'')]))
     (run [Connect ''s1'' (Some ''alice'') ''t0'', Connect ''s2'' (Some ''bob'') ''t1'',
           Message ''s1'' ''alice'' ''t2'' (VDict [(''room'', VStr ''Open Mic''), (''msg'', VStr ''hi'')])]
        initial))
   = [JoinRoom ''s2'' ''Open Mic'',
      Emit (Status ''bob has joined the room.'' ''join'' (Some ''t3'') None) (Room (VStr ''Open Mic'')),
      Emit (ChatHistory ''Open Mic''
              [\<lparr>m_msg = ''hi'', m_username = ''alice'', m_timestamp = ''t2'', m_reactions = []\<rparr>])
        (Room (VStr ''s2''))]"
proof -
  let ?s = "run [Connect ''s1'' (Some ''alice'') ''t0'', Connect ''s2'' (Some ''bob'') ''t1'',
           Message ''s1'' ''alice'' ''t2'' (VDict [(''room'', VStr ''Open Mic''), (''msg'', VStr ''hi'')])]
        initial"
  have s: "?s = \<lparr>active_users =
                   [(''s1'', \<lparr>u_username = ''alice'', u_connected_at = ''t0'', u_room = None\<rparr>),
                    (''s2'', \<lparr>u_username = ''bob'', u_connected_at = ''t1'', u_room = None\<rparr>)],
                 typing_users = [],
                 chat_history = [(''Open Mic'',
                   [\<lparr>m_msg = ''hi'', m_username = ''alice'', m_timestamp = ''t2'', m_reactions = []\<rparr>])]\<rparr>"
    by (simp add: handle_connect_def handle_message_def finished_def initial_def Let_def
        CHAT_ROOMS_def strip_def is_space_def)
  have a: "subscript (VDict [(''room'', VStr ''Open Mic'')]) ''room'' = Inr (VStr ''Open Mic'')"
    by simp
  have b: "catalog_room (VStr ''Open Mic'') = Some ''Open Mic''"
    by (simp add: CHAT_ROOMS_def)
  have c: "map_of (active_users ?s) ''s2''
           = Some \<lparr>u_username = ''bob'', u_connected_at = ''t1'', u_room = None\<rparr>"
    unfolding s by simp
  show ?thesis
    using join_replays_existing_history [OF a b c, of "''bob''" "''t3''"]
    unfolding s by simp
qed

section \<open>Typing status\<close>

text \<open>The status text by the number of names in a duplicate-free list.\<close>

lemma typing_status_policy:
  assumes "distinct xs"
  shows "(card (set xs) = 0 \<longrightarrow> typing_status xs = [])
       \<and> (card (set xs) = 1 \<longrightarrow> (\<exists>n. set xs = {n} \<and> typing_status xs = n @ '' is typing...''))
       \<and> (card (set xs) = 2 \<longrightarrow>
            (\<exists>n1 n2. n1 \<noteq> n2 \<and> set xs = {n1, n2}
               \<and> typing_status xs = n1 @ '' and '' @ n2 @ '' are typing...''))
       \<and> (3 \<le> card (set xs) \<longrightarrow> typing_status xs = ''Several people are typing...'')"
proof -
  have len: "card (set xs) = length xs"
    using assms by (rule distinct_card)
  show ?thesis
  proof (cases xs)
    case Nil
    then show ?thesis by simp
  next
    case (Cons a ys)
    note xs = this
    show ?thesis
    proof (cases ys)
      case Nil
      with xs show ?thesis by simp
    next
      case (Cons b zs)
      note ys = this
      show ?thesis
      proof (cases zs)
        case Nil
        with xs ys assms have "a \<noteq> b" by simp
        with xs ys Nil show ?thesis by auto
      next
        case (Cons c ws)
        with xs ys len show ?thesis by simp
      qed
    qed
  qed
qed

text \<open>
  C3. A typing event with a room and a typing flag in its payload sends one status event to
  the room, whose text depends on the users typing in that room after the update, the
  triggering user left out: none gives the empty text, one gives \<^verbatim>\<open><name> is typing...\<close>, two
  give \<^verbatim>\<open><name1> and <name2> are typing...\<close> with the two names in some order, three or more
  give \<^verbatim>\<open>Several people are typing...\<close>.
\<close>

theorem typing_status_by_count:
  assumes "subscript data ''room'' = Inr room"
    and "subscript data ''typing'' = Inr typing"
    and "hash_key room = Inr k"
  shows "\<exists>msg. handle (Typing username data) s
           = \<lparr>state = state (handle (Typing username data) s),
              effects = [Emit (Status msg ''typing'' None (Some room)) (Room room)],
              logs = [], result = Inr VNone\<rparr>
       \<and> (card (typing_set (state (handle (Typing username data) s)) k - {username}) = 0
            \<longrightarrow> msg = [])
       \<and> (card (typing_set (state (handle (Typing username data) s)) k - {username}) = 1
            \<longrightarrow> (\<exists>n. typing_set (state (handle (Typing username data) s)) k - {username} = {n}
                    \<and> msg = n @ '' is typing...''))
       \<and> (card (typing_set (state (handle (Typing username data) s)) k - {username}) = 2
            \<longrightarrow> (\<exists>n1 n2. n1 \<noteq> n2
                    \<and> typing_set (state (handle (Typing username data) s)) k - {username} = {n1, n2}
                    \<and> msg = n1 @ '' and '' @ n2 @ '' are typing...''))
       \<and> (3 \<le> card (typing_set (state (handle (Typing username data) s)) k - {username})
            \<longrightarrow> msg = ''Several people are typing...'')"
proof -
  define tu where "tu = (if map_of (typing_users s) k = None
                    then AList.update k Dlist.empty (typing_users s) else typing_users s)"
  define cur where "cur = (case map_of tu k of None \<Rightarrow> Dlist.empty | Some d \<Rightarrow> d)"
  define cur' where "cur' = (if truthy typing then Dlist.insert username cur
                      else Dlist.remove username cur)"
  define s' where "s' = s\<lparr>typing_users := AList.update k cur' tu\<rparr>"
  have h: "handle_typing username data s
       = finished s' [Emit (Status (typing_status (users_typing username cur')) ''typing'' None (Some room))
                  (Room room)] []"
    using assms by (simp add: handle_typing_def Let_def tu_def cur_def cur'_def s'_def)
  have st: "state (handle (Typing username data) s) = s'"
    by (simp add: h finished_def)
  have ts: "typing_set s' k = set (list_of_dlist cur')"
    by (simp add: typing_set_def s'_def update_conv')
  have others: "typing_set s' k - {username} = set (users_typing username cur')"
    by (auto simp: ts users_typing_def)
  have d: "distinct (users_typing username cur')"
    by (simp add: users_typing_def)
  show ?thesis
    unfolding st others
    using typing_status_policy [OF d]
    by (intro exI [of _ "typing_status (users_typing username cur')"]) (simp add: h finished_def)
qed

theorem typing_status_by_count_witness:
  "subscript (VDict [(''room'', VStr ''Open Mic''), (''typing'', VBool True)]) ''room''
     = Inr (VStr ''Open Mic'')
   \<and> subscript (VDict [(''room'', VStr ''Open Mic''), (''typing'', VBool True)]) ''typing''
     = Inr (VBool True)
   \<and> hash_key (VStr ''Open Mic'') = Inr (KStr ''Open Mic'')
   \<and> typing_set
        (run [Typing ''bob'' (VDict [(''room'', VStr ''Open Mic''), (''typing'', VBool True)]),
              Typing ''alice'' (VDict [(''room'', VStr ''Open Mic''), (''typing'', VBool True)])]
           initial) (KStr ''Open Mic'') - {''alice''} = {''bob''}
   \<and> effects (handle (Typing ''alice'' (VDict [(''room'', VStr ''Open Mic''), (''typing'', VBool True)]))
        (run [Typing ''bob'' (VDict [(''room'', VStr ''Open Mic''), (''typing'', VBool True)])] initial))
     = [Emit (Status ''bob is typing...'' ''typing'' None (Some (VStr ''Open Mic'')))
          (Room (VStr ''Open Mic''))]"
proof -
  let ?d = "VDict [(''room'', VStr ''Open Mic''), (''typing'', VBool True)]"
  let ?s = "run [Typing ''bob'' ?d] initial"
  have a: "subscript ?d ''room'' = Inr (VStr ''Open Mic'')"
    by simp
  have b: "subscript ?d ''typing'' = Inr (VBool True)"
    by simp
  have c: "hash_key (VStr ''Open Mic'') = Inr (KStr ''Open Mic'')"
    by simp
  have r: "run [Typing ''bob'' ?d, Typing ''alice'' ?d] initial
           = state (handle (Typing ''alice'' ?d) ?s)"
    by simp
  have ts: "typing_set (state (handle (Typing ''alice'' ?d) ?s)) (KStr ''Open Mic'') - {''alice''}
            = {''bob''}"
    by (auto simp: handle_typing_def finished_def initial_def Let_def typing_set_def)
  from typing_status_by_count [OF a b c, of "''alice''" ?s]
  obtain msg where
    m: "handle (Typing ''alice'' ?d) ?s
        = \<lparr>state = state (handle (Typing ''alice'' ?d) ?s),
           effects = [Emit (Status msg ''typing'' None (Some (VStr ''Open Mic''))) (Room (VStr ''Open Mic''))],
           logs = [], result = Inr VNone\<rparr>"
    and one: "card (typing_set (state (handle (Typing ''alice'' ?d) ?s)) (KStr ''Open Mic'') - {''alice''}) = 1
        \<longrightarrow> (\<exists>n. typing_set (state (handle (Typing ''alice'' ?d) ?s)) (KStr ''Open Mic'') - {''alice''} = {n}
               \<and> msg = n @ '' is typing...'')"
    by blast
  from one have "msg = ''bob is typing...''"
    unfolding ts by auto
  with m have e: "effects (handle (Typing ''alice'' ?d) ?s)
     = [Emit (Status ''bob is typing...'' ''typing'' None (Some (VStr ''Open Mic'')))
          (Room (VStr ''Open Mic''))]"
    by (metis outcome.select_convs(2))
  show ?thesis
    unfolding r using a b c ts e by blast
qed

end
